theory Spec2Isabelle
  imports Complex_Main "HOL-Library.Sublist"
begin

unbundle bit_operations_syntax

section \<open>cbatticon-apm: battery state, time estimation and thresholds\<close>

text \<open>
  A shallow embedding of \<^verbatim>\<open>cbatticon.c\<close>. A \<^verbatim>\<open>gint\<close> is an \<open>int\<close>; none of the
  properties below depends on 32-bit wrap-around. File-level and function-level
  \<^verbatim>\<open>static\<close> variables become fields of explicit state records, passed in and
  returned. The pointers the functions receive are addresses of locals of their callers,
  so the \<^verbatim>\<open>g_return_val_if_fail\<close> checks for \<^verbatim>\<open>NULL\<close> never fail and the
  \<^verbatim>\<open>gboolean\<close> results they guard are always \<^verbatim>\<open>TRUE\<close>: an out-parameter is
  modelled as the returned value.
\<close>

subsection \<open>Constants and data\<close>

text \<open>The anonymous enum of battery states (lines 79-88).\<close>

definition MISSING :: int where "MISSING = 0"
definition UNKNOWN :: int where "UNKNOWN = 1"
definition CHARGED :: int where "CHARGED = 2"
definition CHARGING :: int where "CHARGING = 3"
definition DISCHARGING :: int where "DISCHARGING = 4"
definition NOTCHARGING :: int where "NOTCHARGING = 5"
definition LOW_LEVEL :: int where "LOW_LEVEL = 6"
definition CRITICAL_LEVEL :: int where "CRITICAL_LEVEL = 7"

text \<open>The enum of icon types (lines 72-77).\<close>

definition UNKNOWN_ICON :: int where "UNKNOWN_ICON = 0"
definition BATTERY_ICON_STANDARD :: int where "BATTERY_ICON_STANDARD = 1"
definition BATTERY_ICON_NOTIFICATION :: int where "BATTERY_ICON_NOTIFICATION = 2"
definition BATTERY_ICON_GPM :: int where "BATTERY_ICON_GPM = 3"

definition DEFAULT_UPDATE_INTERVAL :: int where "DEFAULT_UPDATE_INTERVAL = 5"
definition DEFAULT_LOW_LEVEL :: int where "DEFAULT_LOW_LEVEL = 20"
definition DEFAULT_CRITICAL_LEVEL :: int where "DEFAULT_CRITICAL_LEVEL = 5"

text \<open>
  \<^verbatim>\<open>struct configuration\<close> (lines 90-118). A \<^verbatim>\<open>gchar *\<close> command is \<open>None\<close> when
  it is \<^verbatim>\<open>NULL\<close>.
\<close>

record configuration =
  display_version :: bool
  debug_output :: bool
  update_interval :: int
  icon_type :: int
  low_level :: int
  critical_level :: int
  command_low_level :: "string option"
  command_critical_level :: "string option"
  command_left_click :: "string option"
  hide_notification :: bool
  list_icon_types :: bool

text \<open>
  The fields of libapm's \<^verbatim>\<open>apm_info\<close> (declared in \<^verbatim>\<open>apm.h\<close>, all of them
  \<^verbatim>\<open>int\<close>) that the program reads after \<^verbatim>\<open>apm_read\<close>.
\<close>

record apm_info =
  battery_status :: int
  battery_flags :: int
  battery_percentage :: int
  battery_time :: int
  using_minutes :: int

subsection \<open>Status classification\<close>

text \<open>
  \<^verbatim>\<open>get_battery_status\<close> (lines 422-468): the \<^verbatim>\<open>switch\<close> on the APM status code,
  then the override by bit 3 of the battery flags. The result is the value written to
  \<^verbatim>\<open>*status\<close>.
\<close>

definition get_battery_status :: "apm_info \<Rightarrow> int" where
  "get_battery_status info =
     (let status =
        (if battery_status info = 0 \<or> battery_status info = 1 \<or> battery_status info = 2
           then DISCHARGING
         else if battery_status info = 3
           then (if battery_percentage info = 100 then CHARGED else CHARGING)
         else if battery_status info = 4
           then MISSING
         else UNKNOWN)
      in if (battery_flags info AND push_bit 3 1) \<noteq> 0
           then (if battery_percentage info = 100 then CHARGED else CHARGING)
         else status)"


subsection \<open>Command line options\<close>

text \<open>
  \<^verbatim>\<open>get_options\<close> (lines 201-392), from the end of the \<^verbatim>\<open>getopt_long\<close> loop on.
  The argument \<open>c\<close> is the configuration as the loop left it (the defaults of lines
  104-118 overwritten by the options given, numbers read by \<^verbatim>\<open>strtol\<close>),
  \<open>icon_type_string\<close> the argument of \<^verbatim>\<open>-i\<close> if any, and the three booleans are
  the results of the \<^verbatim>\<open>access\<close> tests \<^verbatim>\<open>HAS_STANDARD_ICON_TYPE\<close>,
  \<^verbatim>\<open>HAS_NOTIFICATION_ICON_TYPE\<close> and \<^verbatim>\<open>HAS_GPM_ICON_TYPE\<close>. The result is the
  returned \<^verbatim>\<open>gint\<close> and the configuration left behind; \<^verbatim>\<open>main\<close> goes on only when
  the \<^verbatim>\<open>gint\<close> is positive. Messages printed are not modelled.
\<close>

definition get_options ::
  "configuration \<Rightarrow> string option \<Rightarrow> bool \<Rightarrow> bool \<Rightarrow> bool \<Rightarrow> int \<times> configuration" where
  "get_options c icon_type_string has_standard has_notification has_gpm =
     (if display_version c then (0, c)
      else if list_icon_types c then (0, c)
      else
        let c1 = (case icon_type_string of
                    None \<Rightarrow> c
                  | Some s \<Rightarrow>
                      if s = ''standard'' \<and> has_standard
                        then c\<lparr>icon_type := BATTERY_ICON_STANDARD\<rparr>
                      else if s = ''notification'' \<and> has_notification
                        then c\<lparr>icon_type := BATTERY_ICON_NOTIFICATION\<rparr>
                      else if s = ''gpm'' \<and> has_gpm
                        then c\<lparr>icon_type := BATTERY_ICON_GPM\<rparr>
                      else c);
            c2 = (if icon_type c1 = UNKNOWN_ICON
                    then (if has_standard then c1\<lparr>icon_type := BATTERY_ICON_STANDARD\<rparr>
                          else if has_notification
                            then c1\<lparr>icon_type := BATTERY_ICON_NOTIFICATION\<rparr>
                          else if has_gpm then c1\<lparr>icon_type := BATTERY_ICON_GPM\<rparr>
                          else c1)
                  else c1);
            c3 = (if update_interval c2 \<le> 0
                    then c2\<lparr>update_interval := DEFAULT_UPDATE_INTERVAL\<rparr> else c2);
            c4 = (if low_level c3 < 0 \<or> low_level c3 > 100
                    then c3\<lparr>low_level := DEFAULT_LOW_LEVEL\<rparr> else c3);
            c5 = (if critical_level c4 < 0 \<or> critical_level c4 > 100
                    then c4\<lparr>critical_level := DEFAULT_CRITICAL_LEVEL\<rparr> else c4);
            c6 = (if critical_level c5 > low_level c5
                    then c5\<lparr>critical_level := DEFAULT_CRITICAL_LEVEL,
                            low_level := DEFAULT_LOW_LEVEL\<rparr>
                  else c5)
        in (1, c6))"

subsection \<open>Time strings\<close>

text \<open>
  The decimal digits \<^verbatim>\<open>%d\<close> prints, and the two conversions the format strings of
  \<^verbatim>\<open>get_time_string\<close> use. A conversion that meets no argument of its kind ends the
  output (the program never does that).
\<close>

datatype printf_arg = D int | S string

fun dec_nat :: "nat \<Rightarrow> string" where
  "dec_nat n = (if n < 10 then [''0123456789'' ! n]
                else dec_nat (n div 10) @ [''0123456789'' ! (n mod 10)])"

declare dec_nat.simps [simp del]

definition dec_int :: "int \<Rightarrow> string" where
  "dec_int i = (if i < 0 then CHR ''-'' # dec_nat (nat (- i)) else dec_nat (nat i))"

fun g_sprintf :: "string \<Rightarrow> printf_arg list \<Rightarrow> string" where
  "g_sprintf [] args = []"
| "g_sprintf [c] args = [c]"
| "g_sprintf (c # d # fmt) args =
     (if c = CHR ''%'' \<and> d = CHR ''d''
        then (case args of D n # args' \<Rightarrow> dec_int n @ g_sprintf fmt args' | _ \<Rightarrow> [])
      else if c = CHR ''%'' \<and> d = CHR ''s''
        then (case args of S s # args' \<Rightarrow> s @ g_sprintf fmt args' | _ \<Rightarrow> [])
      else c # g_sprintf (d # fmt) args)"

text \<open>
  \<^verbatim>\<open>g_dngettext\<close> is \<^verbatim>\<open>dngettext\<close> (line 54). With no message catalogue it returns
  the first message when the number is 1 and the second otherwise.
\<close>

definition g_dngettext :: "string \<Rightarrow> string \<Rightarrow> int \<Rightarrow> string" where
  "g_dngettext msgid1 msgid2 n = (if n = 1 then msgid1 else msgid2)"

text \<open>
  \<^verbatim>\<open>get_time_string\<close> (lines 938-963). \<open>None\<close> is the \<^verbatim>\<open>NULL\<close> it returns. Past the
  first test the minutes are not negative, where C's \<^verbatim>\<open>/\<close> and \<^verbatim>\<open>%\<close> are
  \<open>div\<close> and \<open>mod\<close>.
\<close>

definition get_time_string :: "int \<Rightarrow> string option" where
  "get_time_string minutes0 =
     (if minutes0 < 0 then None
      else
        let hours = minutes0 div 60;
            minutes = minutes0 mod 60
        in if hours > 0
             then
               (let minutes_string =
                      g_sprintf (g_dngettext ''%d minute'' ''%d minutes'' minutes) [D minutes]
                in Some (g_sprintf
                     (g_dngettext ''%d hour, %s remaining'' ''%d hours, %s remaining'' hours)
                     [D hours, S minutes_string]))
           else Some (g_sprintf
                  (g_dngettext ''%d minute remaining'' ''%d minutes remaining'' minutes)
                  [D minutes]))"


subsection \<open>Double precision arithmetic\<close>

text \<open>
  The estimator computes in \<^verbatim>\<open>gdouble\<close>, an IEEE 754 binary64 number. A finite double
  is modelled by the rational it denotes; the infinities and NaN are values of their own.
  An operation computes the exact result and rounds it to the nearest double, ties to the
  even significand (\<open>round_double\<close>); past the largest double it gives an infinity. The
  sign of a zero is not kept: a zero divisor counts as +0, which is what the elapsed time
  of a timer is, and no result below depends on the sign of a zero otherwise.
\<close>

datatype gdouble = Finite rat | PInf | NInf | NaN

text \<open>The number of binary digits of a positive integer.\<close>

function bitlen :: "int \<Rightarrow> int" where
  "bitlen n = (if n \<le> 0 then 0 else 1 + bitlen (n div 2))"
  by pat_completeness auto
termination
  by (relation "measure nat") auto

declare bitlen.simps [simp del]

text \<open>The binary exponent of a positive rational \<open>a\<close>: \<open>2 powi ilog2 a \<le> a < 2 powi (ilog2 a + 1)\<close>.\<close>

definition ilog2 :: "rat \<Rightarrow> int" where
  "ilog2 a =
     (let (n, d) = quotient_of a;
          k = bitlen n - bitlen d
      in if 2 powi k \<le> a then k else k - 1)"

definition round_half_even :: "rat \<Rightarrow> int" where
  "round_half_even x =
     (let f = \<lfloor>x\<rfloor>; r = x - of_int f
      in if r < 1 / 2 then f else if 1 / 2 < r then f + 1 else if even f then f else f + 1)"

text \<open>
  Rounding to binary64: 53 significant bits, the least exponent -1022 (below it the
  subnormal numbers share the unit \<open>2 powi (- 1074)\<close>), overflow from \<open>2 ^ 1024\<close> on;
  9007199254740992 is \<open>2 ^ 53\<close>.
\<close>

definition round_double :: "rat \<Rightarrow> gdouble" where
  "round_double q =
     (if q = 0 then Finite 0
      else
        let a = \<bar>q\<bar>;
            ex = max (ilog2 a) (- 1022);
            ulp = 2 powi (ex - 52);
            m = round_half_even (a / ulp)
        in if 1023 < ex \<or> (ex = 1023 \<and> 9007199254740992 \<le> m)
             then (if 0 < q then PInf else NInf)
           else Finite (if 0 < q then of_int m * ulp else - (of_int m * ulp)))"

fun double_sub :: "gdouble \<Rightarrow> gdouble \<Rightarrow> gdouble" where
  "double_sub NaN _ = NaN"
| "double_sub _ NaN = NaN"
| "double_sub (Finite a) (Finite b) = round_double (a - b)"
| "double_sub (Finite a) PInf = NInf"
| "double_sub (Finite a) NInf = PInf"
| "double_sub PInf PInf = NaN"
| "double_sub PInf _ = PInf"
| "double_sub NInf NInf = NaN"
| "double_sub NInf _ = NInf"

fun double_div :: "gdouble \<Rightarrow> gdouble \<Rightarrow> gdouble" where
  "double_div NaN _ = NaN"
| "double_div _ NaN = NaN"
| "double_div (Finite a) (Finite b) =
     (if b \<noteq> 0 then round_double (a / b)
      else if a = 0 then NaN else if 0 < a then PInf else NInf)"
| "double_div (Finite a) _ = Finite 0"
| "double_div PInf (Finite b) = (if 0 \<le> b then PInf else NInf)"
| "double_div NInf (Finite b) = (if 0 \<le> b then NInf else PInf)"
| "double_div _ _ = NaN"

text \<open>The comparison \<^verbatim>\<open>==\<close>: a NaN equals nothing. \<^verbatim>\<open>!=\<close> is its negation.\<close>

fun double_eq :: "gdouble \<Rightarrow> gdouble \<Rightarrow> bool" where
  "double_eq NaN _ = False"
| "double_eq _ NaN = False"
| "double_eq a b = (a = b)"

text \<open>
  The cast \<^verbatim>\<open>(gint)\<close> of a double truncates toward zero. Its behaviour is undefined
  for NaN, for an infinity and for a value outside the 32-bit range: \<open>None\<close>.
\<close>

definition gint_of_double :: "gdouble \<Rightarrow> int option" where
  "gint_of_double x =
     (case x of
        Finite q \<Rightarrow>
          (let t = (if 0 \<le> q then \<lfloor>q\<rfloor> else \<lceil>q\<rceil>)
           in if - (2 ^ 31) \<le> t \<and> t \<le> 2 ^ 31 - 1 then Some t else None)
      | _ \<Rightarrow> None)"

text \<open>The conversion of a 32-bit \<^verbatim>\<open>int\<close> to \<^verbatim>\<open>double\<close> is exact.\<close>

definition double_of_gint :: "int \<Rightarrow> gdouble" where
  "double_of_gint i = Finite (of_int i)"

subsection \<open>Time estimation\<close>

text \<open>
  The three file-level variables of lines 163-165. A \<^verbatim>\<open>GTimer\<close> (GLib) remembers the
  reading of the monotonic clock, in microseconds, at which it was last started;
  \<^verbatim>\<open>g_timer_elapsed\<close> returns the seconds since then as a double, that is the
  difference of the two readings divided by \<^verbatim>\<open>1e6\<close>. The reading of the clock at a call
  is the argument \<open>now\<close> of the functions below.
\<close>

record estimation =
  estimation_remaining_capacity :: gdouble
  estimation_time :: int
  estimation_timer :: int

definition g_timer_elapsed :: "int \<Rightarrow> int \<Rightarrow> gdouble" where
  "g_timer_elapsed timer now = double_div (round_double (of_int (now - timer))) (Finite 1000000)"

text \<open>
  \<^verbatim>\<open>get_battery_time_estimation\<close> (lines 497-523). The result is the value written to
  \<^verbatim>\<open>*time\<close> and the variables left behind, or \<open>None\<close> when the cast of line 513 is
  undefined.
\<close>

definition get_battery_time_estimation ::
  "gdouble \<Rightarrow> gdouble \<Rightarrow> int \<Rightarrow> estimation \<Rightarrow> (int \<times> estimation) option" where
  "get_battery_time_estimation remaining_capacity y now e =
     (let e1 = (if double_eq (estimation_remaining_capacity e) (double_of_gint (- 1))
                  then e\<lparr>estimation_remaining_capacity := remaining_capacity\<rparr> else e)
      in if \<not> double_eq remaining_capacity (estimation_remaining_capacity e1)
           then
             (let estimation_elapsed = g_timer_elapsed (estimation_timer e1) now;
                  estimation_current_rate =
                    double_div (double_sub remaining_capacity (estimation_remaining_capacity e1))
                      estimation_elapsed;
                  estimation_seconds =
                    double_div (double_sub y remaining_capacity) estimation_current_rate
              in case gint_of_double (double_div estimation_seconds (Finite 60)) of
                   None \<Rightarrow> None
                 | Some t \<Rightarrow>
                     Some (t, e1\<lparr>estimation_remaining_capacity := remaining_capacity,
                                 estimation_time := t,
                                 estimation_timer := now\<rparr>))
         else Some (estimation_time e1, e1))"

text \<open>\<^verbatim>\<open>reset_battery_time_estimation\<close> (lines 525-530).\<close>

definition reset_battery_time_estimation :: "int \<Rightarrow> estimation \<Rightarrow> estimation" where
  "reset_battery_time_estimation now e =
     e\<lparr>estimation_remaining_capacity := double_of_gint (- 1),
       estimation_time := - 1,
       estimation_timer := now\<rparr>"

text \<open>
  C's integer division, which truncates toward zero, for line 491.
\<close>

definition c_div :: "int \<Rightarrow> int \<Rightarrow> int" where
  "c_div a b = (if (a < 0) = (b < 0) then \<bar>a\<bar> div \<bar>b\<bar> else - (\<bar>a\<bar> div \<bar>b\<bar>))"

text \<open>
  \<^verbatim>\<open>get_battery_charge\<close> (lines 474-495), called with a \<^verbatim>\<open>time\<close> pointer that is not
  \<^verbatim>\<open>NULL\<close>, as both calls in the program do. The result is the percentage, the time
  and the estimation variables left behind.
\<close>

definition get_battery_charge ::
  "apm_info \<Rightarrow> bool \<Rightarrow> int \<Rightarrow> estimation \<Rightarrow> ((int \<times> int) \<times> estimation) option" where
  "get_battery_charge info remaining now e =
     (let percentage = battery_percentage info
      in if \<not> remaining
           then (case get_battery_time_estimation (double_of_gint (battery_percentage info))
                        (double_of_gint 100) now e of
                   None \<Rightarrow> None
                 | Some (t, e') \<Rightarrow> Some ((percentage, t), e'))
         else if using_minutes info \<noteq> 0
           then Some ((percentage, battery_time info), e)
         else Some ((percentage, c_div (battery_time info + 30) 60), e))"


subsection \<open>The tray icon status\<close>

text \<open>
  The function-level \<^verbatim>\<open>static\<close> variables of \<^verbatim>\<open>update_tray_icon_status\<close> (lines
  622-633), with the estimation variables they are updated along with.
\<close>

record tray_status =
  old_battery_status :: int
  battery_low :: bool
  battery_critical :: bool
  spawn_command_low :: bool
  spawn_command_critical :: bool
  estimation :: estimation

text \<open>
  What a poll does to the outside is the list of the calls it makes, in order. A battery
  string is kept as the pair of arguments \<^verbatim>\<open>get_battery_string\<close> rendered it from
  (state and percentage); the time string is the result of \<^verbatim>\<open>get_time_string\<close>.
  \<open>Notify_message\<close> is a use of the macro \<^verbatim>\<open>NOTIFY_MESSAGE\<close> on the handle
  \<^verbatim>\<open>notification\<close> (whether it is shown is up to \<^verbatim>\<open>notify_message\<close>, which
  shows nothing when notifications are hidden), \<open>Notify_spawn_failed\<close> one on the handle
  \<^verbatim>\<open>spawn_notification\<close>. \<open>G_usleep\<close> carries the microseconds,
  \<open>G_spawn_command_line_async\<close> the command line. Calls of \<^verbatim>\<open>syslog\<close> and
  \<^verbatim>\<open>g_printerr\<close> are left out.
\<close>

datatype expiry = NOTIFY_EXPIRES_DEFAULT | NOTIFY_EXPIRES_NEVER

datatype urgency = NOTIFY_URGENCY_NORMAL | NOTIFY_URGENCY_CRITICAL

type_synonym battery_string = "int \<times> int"

datatype call =
    Notify_message battery_string "string option" expiry urgency
  | Set_tooltip_text battery_string "string option"
  | Set_tray_icon int int
  | G_usleep int
  | G_spawn_command_line_async string
  | Notify_spawn_failed string

text \<open>
  The macro \<^verbatim>\<open>HANDLE_BATTERY_STATUS\<close> (lines 673-686), for the battery status
  \<open>status\<close> of the poll.
\<close>

definition HANDLE_BATTERY_STATUS ::
  "int \<Rightarrow> int \<Rightarrow> int \<Rightarrow> expiry \<Rightarrow> urgency \<Rightarrow> tray_status \<Rightarrow> tray_status \<times> call list" where
  "HANDLE_BATTERY_STATUS status PCT TIM EXP URG s =
     (let percentage = PCT;
          battery_string = (status, percentage);
          time_string = get_time_string TIM
      in if old_battery_status s \<noteq> status
           then (s\<lparr>old_battery_status := status\<rparr>,
                 [Notify_message battery_string time_string EXP URG,
                  Set_tooltip_text battery_string time_string,
                  Set_tray_icon status percentage])
         else (s, [Set_tooltip_text battery_string time_string,
                   Set_tray_icon status percentage]))"

text \<open>
  Lines 719-751 of the case \<^verbatim>\<open>DISCHARGING\<close>/\<^verbatim>\<open>NOTCHARGING\<close>: the notification
  of a new discharge with the reset of the four flags, the low and the critical level
  tests, the tooltip and the icon.
\<close>

definition discharging_levels ::
  "configuration \<Rightarrow> int \<Rightarrow> int \<Rightarrow> int \<Rightarrow> tray_status \<Rightarrow> tray_status \<times> call list" where
  "discharging_levels conf status percentage time s =
     (let battery_string0 = (status, percentage);
          time_string = get_time_string time;
          (s1, calls1) =
            (if old_battery_status s \<noteq> DISCHARGING
               then (s\<lparr>old_battery_status := DISCHARGING,
                        battery_low := False,
                        battery_critical := False,
                        spawn_command_low := False,
                        spawn_command_critical := False\<rparr>,
                     [Notify_message battery_string0 time_string
                        NOTIFY_EXPIRES_DEFAULT NOTIFY_URGENCY_NORMAL])
             else (s, []));
          (s2, battery_string2, calls2) =
            (if battery_low s1 = False \<and> percentage \<le> low_level conf
               then (s1\<lparr>battery_low := True, spawn_command_low := True\<rparr>,
                     (LOW_LEVEL, percentage),
                     [Notify_message (LOW_LEVEL, percentage) time_string
                        NOTIFY_EXPIRES_NEVER NOTIFY_URGENCY_NORMAL])
             else (s1, battery_string0, []));
          (s3, battery_string3, calls3) =
            (if battery_critical s2 = False \<and> percentage \<le> critical_level conf
               then (s2\<lparr>battery_critical := True, spawn_command_critical := True\<rparr>,
                     (CRITICAL_LEVEL, percentage),
                     [Notify_message (CRITICAL_LEVEL, percentage) time_string
                        NOTIFY_EXPIRES_NEVER NOTIFY_URGENCY_CRITICAL])
             else (s2, battery_string2, []))
      in (s3, calls1 @ calls2 @ calls3
              @ [Set_tooltip_text battery_string3 time_string,
                 Set_tray_icon status percentage]))"

text \<open>
  Lines 781-807: the critical level command. \<open>spawn\<close> tells whether
  \<^verbatim>\<open>g_spawn_command_line_async\<close> succeeds on a command line. Before spawning, the
  status is computed again, from the same sample \<open>info\<close> (it is not read again), and
  the function returns if the battery is no longer discharging.
\<close>

definition spawn_critical ::
  "configuration \<Rightarrow> (string \<Rightarrow> bool) \<Rightarrow> apm_info \<Rightarrow> tray_status \<Rightarrow> tray_status \<times> call list" where
  "spawn_critical conf spawn info s =
     (if spawn_command_critical s
        then
          (let s1 = s\<lparr>spawn_command_critical := False\<rparr>
           in case command_critical_level conf of
                None \<Rightarrow> (s1, [])
              | Some cmd \<Rightarrow>
                  if get_battery_status info \<noteq> DISCHARGING
                     \<and> get_battery_status info \<noteq> NOTCHARGING
                    then (s1, [G_usleep (1000000 * 30)])
                  else if spawn cmd
                    then (s1, [G_usleep (1000000 * 30), G_spawn_command_line_async cmd])
                  else (s1, [G_usleep (1000000 * 30), G_spawn_command_line_async cmd,
                             Notify_spawn_failed cmd]))
      else (s, []))"

text \<open>
  Lines 753-807: the low level command, then, unless the function has returned, the
  critical level command.
\<close>

definition spawn_commands ::
  "configuration \<Rightarrow> (string \<Rightarrow> bool) \<Rightarrow> apm_info \<Rightarrow> tray_status \<Rightarrow> tray_status \<times> call list" where
  "spawn_commands conf spawn info s =
     (if spawn_command_low s
        then
          (let s1 = s\<lparr>spawn_command_low := False\<rparr>
           in case command_low_level conf of
                None \<Rightarrow> spawn_critical conf spawn info s1
              | Some cmd \<Rightarrow>
                  if get_battery_status info \<noteq> DISCHARGING
                     \<and> get_battery_status info \<noteq> NOTCHARGING
                    then (s1, [G_usleep (1000000 * 5)])
                  else
                    (let calls1 =
                           (if spawn cmd
                              then [G_usleep (1000000 * 5), G_spawn_command_line_async cmd]
                            else [G_usleep (1000000 * 5), G_spawn_command_line_async cmd,
                                  Notify_spawn_failed cmd]);
                         (s2, calls2) = spawn_critical conf spawn info s1
                     in (s2, calls1 @ calls2)))
      else spawn_critical conf spawn info s)"

text \<open>
  \<^verbatim>\<open>update_tray_icon_status\<close> (lines 617-810): one poll. \<open>info\<close> is the sample
  \<^verbatim>\<open>apm_read\<close> delivers, \<open>now\<close> the reading of the monotonic clock. The result is
  \<open>None\<close> when the estimator's cast is undefined. The \<^verbatim>\<open>switch\<close> has no default: on
  any other status nothing is done.
\<close>

definition update_tray_icon_status ::
  "configuration \<Rightarrow> (string \<Rightarrow> bool) \<Rightarrow> apm_info \<Rightarrow> int \<Rightarrow> tray_status
     \<Rightarrow> (tray_status \<times> call list) option" where
  "update_tray_icon_status conf spawn info now s =
     (let status = get_battery_status info
      in if status = MISSING
           then Some (HANDLE_BATTERY_STATUS status 0 (- 1)
                        NOTIFY_EXPIRES_NEVER NOTIFY_URGENCY_NORMAL s)
         else if status = UNKNOWN
           then Some (HANDLE_BATTERY_STATUS status 0 (- 1)
                        NOTIFY_EXPIRES_DEFAULT NOTIFY_URGENCY_NORMAL s)
         else if status = CHARGED
           then Some (HANDLE_BATTERY_STATUS status 100 (- 1)
                        NOTIFY_EXPIRES_DEFAULT NOTIFY_URGENCY_NORMAL s)
         else if status = CHARGING
           then
             (let s1 = (if old_battery_status s \<noteq> CHARGING
                          then s\<lparr>estimation :=
                                   reset_battery_time_estimation now (estimation s)\<rparr>
                        else s)
              in case get_battery_charge info False now (estimation s1) of
                   None \<Rightarrow> None
                 | Some ((percentage, time), e) \<Rightarrow>
                     Some (HANDLE_BATTERY_STATUS status percentage time
                             NOTIFY_EXPIRES_DEFAULT NOTIFY_URGENCY_NORMAL
                             (s1\<lparr>estimation := e\<rparr>)))
         else if status = DISCHARGING \<or> status = NOTCHARGING
           then
             (case get_battery_charge info True now (estimation s) of
                None \<Rightarrow> None
              | Some ((percentage, time), e) \<Rightarrow>
                  (let (s1, calls1) =
                         discharging_levels conf status percentage time (s\<lparr>estimation := e\<rparr>);
                       (s2, calls2) = spawn_commands conf spawn info s1
                   in Some (s2, calls1 @ calls2)))
         else Some (s, []))"

text \<open>
  The program polls again and again (\<^verbatim>\<open>g_timeout_add\<close>, line 558): a run of polls,
  each with its sample and its clock reading, from a status on. The calls of the polls
  follow each other.
\<close>

fun polls ::
  "configuration \<Rightarrow> (string \<Rightarrow> bool) \<Rightarrow> (apm_info \<times> int) list \<Rightarrow> tray_status
     \<Rightarrow> (tray_status \<times> call list) option" where
  "polls conf spawn [] s = Some (s, [])"
| "polls conf spawn ((info, now) # rest) s =
     (case update_tray_icon_status conf spawn info now s of
        None \<Rightarrow> None
      | Some (s1, calls1) \<Rightarrow>
          (case polls conf spawn rest s1 of
             None \<Rightarrow> None
           | Some (s2, calls2) \<Rightarrow> Some (s2, calls1 @ calls2)))"

text \<open>
  The low level crossing of a poll shows in two calls: the low level notification, and,
  when a low level command is configured, the five seconds' sleep that leads to spawning
  it. The critical crossing likewise, with thirty seconds.
\<close>

fun low_notification :: "call \<Rightarrow> bool" where
  "low_notification (Notify_message battery_string _ _ _) = (fst battery_string = LOW_LEVEL)"
| "low_notification _ = False"

fun critical_notification :: "call \<Rightarrow> bool" where
  "critical_notification (Notify_message battery_string _ _ _) =
     (fst battery_string = CRITICAL_LEVEL)"
| "critical_notification _ = False"

fun low_command_request :: "call \<Rightarrow> bool" where
  "low_command_request (G_usleep n) = (n = 1000000 * 5)"
| "low_command_request _ = False"

fun critical_command_request :: "call \<Rightarrow> bool" where
  "critical_command_request (G_usleep n) = (n = 1000000 * 30)"
| "critical_command_request _ = False"

definition count_calls :: "(call \<Rightarrow> bool) \<Rightarrow> call list \<Rightarrow> nat" where
  "count_calls P calls = length (filter P calls)"

text \<open>The status at program start (lines 163-165 and 621-633, the timer made in \<^verbatim>\<open>main\<close>).\<close>

definition initial_status :: "int \<Rightarrow> tray_status" where
  "initial_status now =
     \<lparr>old_battery_status = - 1, battery_low = False, battery_critical = False,
      spawn_command_low = False, spawn_command_critical = False,
      estimation = \<lparr>estimation_remaining_capacity = double_of_gint (- 1),
                    estimation_time = - 1, estimation_timer = now\<rparr>\<rparr>"

text \<open>
  Between two polls no command is waiting to be spawned: every poll that sets one of the
  two spawn flags clears it before it ends (see \<open>between_polls_update\<close> below).
\<close>

definition between_polls :: "tray_status \<Rightarrow> bool" where
  "between_polls s = (spawn_command_low s = False \<and> spawn_command_critical s = False)"

text \<open>
  How many low level crossings a status still allows while the battery goes on
  discharging: none once the low latch is set in a discharge, one otherwise.
\<close>

definition low_budget :: "tray_status \<Rightarrow> nat" where
  "low_budget s = (if old_battery_status s = DISCHARGING \<and> battery_low s then 0 else 1)"

subsection \<open>Sample inputs\<close>

definition initial_estimation :: estimation where
  "initial_estimation =
     \<lparr>estimation_remaining_capacity = double_of_gint (- 1), estimation_time = - 1,
      estimation_timer = 0\<rparr>"

definition seeded_estimation :: estimation where
  "seeded_estimation =
     \<lparr>estimation_remaining_capacity = double_of_gint 80, estimation_time = - 1,
      estimation_timer = 0\<rparr>"

definition sample_configuration :: configuration where
  "sample_configuration = \<lparr>display_version = False, debug_output = False, update_interval = 5,
     icon_type = 1, low_level = 20, critical_level = 5,
     command_low_level = Some ''low-cmd'', command_critical_level = Some ''critical-cmd'',
     command_left_click = None, hide_notification = False, list_icon_types = False\<rparr>"

definition apm_sample :: "int \<Rightarrow> int \<Rightarrow> apm_info" where
  "apm_sample code percentage =
     \<lparr>battery_status = code, battery_flags = 0, battery_percentage = percentage,
      battery_time = 90, using_minutes = 1\<rparr>"

definition fluctuating_session :: "(apm_info \<times> int) list" where
  "fluctuating_session =
     [(apm_sample 0 25, 5000000), (apm_sample 1 20, 10000000), (apm_sample 0 21, 15000000),
      (apm_sample 1 19, 20000000), (apm_sample 1 18, 25000000)]"

definition inverted_configuration :: configuration where
  "inverted_configuration =
     \<lparr>display_version = False, debug_output = False, update_interval = 5,
      icon_type = 0, low_level = 5, critical_level = 20, command_low_level = None,
      command_critical_level = None, command_left_click = None, hide_notification = False,
      list_icon_types = False\<rparr>"

section \<open>Properties of the classifier\<close>

lemmas battery_state_defs =
  MISSING_def UNKNOWN_def CHARGED_def CHARGING_def DISCHARGING_def NOTCHARGING_def
  LOW_LEVEL_def CRITICAL_LEVEL_def

lemma flag_bit3: "((f::int) AND 8) \<noteq> 0 \<longleftrightarrow> bit f 3"
  using bit_iff_and_push_bit_not_eq_0 [of f 3] by simp

text \<open>
  Claim C6. A sample whose raw status code is High (0), Low (1) or Critical (2) and whose
  charging flag (bit 3 of the battery flags) is clear is classified as Discharging,
  whatever its percentage.
\<close>

theorem level_codes_discharging:
  assumes "battery_status info \<in> {0, 1, 2}"
    and "\<not> bit (battery_flags info) 3"
  shows "get_battery_status info = DISCHARGING"
  using assms by (auto simp: get_battery_status_def flag_bit3)

theorem level_codes_discharging_witness:
  "battery_status \<lparr>battery_status = 1, battery_flags = 4, battery_percentage = 3,
       battery_time = 12, using_minutes = 1\<rparr> \<in> {0, 1, 2}
   \<and> \<not> bit (battery_flags \<lparr>battery_status = 1, battery_flags = 4, battery_percentage = 3,
       battery_time = 12, using_minutes = 1\<rparr>) 3
   \<and> get_battery_status \<lparr>battery_status = 1, battery_flags = 4, battery_percentage = 3,
       battery_time = 12, using_minutes = 1\<rparr> = DISCHARGING"
proof -
  let ?i = "\<lparr>battery_status = 1, battery_flags = 4, battery_percentage = 3,
       battery_time = 12, using_minutes = 1\<rparr>"
  have a: "battery_status ?i \<in> {0, 1, 2}" by simp
  have b: "\<not> bit (battery_flags ?i) 3" by (simp add: bit_iff_odd_drop_bit)
  from level_codes_discharging [OF a b] a b show ?thesis by blast
qed

text \<open>
  Claim C7. Writing "charging condition" for: the raw code is Charging (3) or the
  charging flag is set. The sample is classified as Charged exactly when the charging
  condition holds and the percentage is 100; and whenever the charging condition holds
  and the percentage is below 100 it is classified as Charging. The flag overrides the
  result of the code: that holds for every raw code.
\<close>

theorem charged_iff_charging_condition:
  "(get_battery_status info = CHARGED \<longleftrightarrow>
      (battery_status info = 3 \<or> bit (battery_flags info) 3) \<and> battery_percentage info = 100)
   \<and> ((battery_status info = 3 \<or> bit (battery_flags info) 3) \<and> battery_percentage info < 100
        \<longrightarrow> get_battery_status info = CHARGING)"
  by (auto simp: get_battery_status_def flag_bit3 battery_state_defs)

theorem charged_iff_charging_condition_witness:
  "get_battery_status \<lparr>battery_status = 0, battery_flags = 8, battery_percentage = 100,
       battery_time = 0, using_minutes = 0\<rparr> = CHARGED
   \<and> get_battery_status \<lparr>battery_status = 0, battery_flags = 8, battery_percentage = 40,
       battery_time = 0, using_minutes = 0\<rparr> = CHARGING"
  using charged_iff_charging_condition [of "\<lparr>battery_status = 0, battery_flags = 8,
       battery_percentage = 100, battery_time = 0, using_minutes = 0\<rparr>"]
    charged_iff_charging_condition [of "\<lparr>battery_status = 0, battery_flags = 8,
       battery_percentage = 40, battery_time = 0, using_minutes = 0\<rparr>"]
  by (simp add: bit_iff_odd_drop_bit)

text \<open>
  Claim C10. Whatever the sample (raw code, percentage, flags), the classifier never
  yields NOTCHARGING: its results are Missing, Unknown, Charged, Charging and
  Discharging only.
\<close>

theorem never_notcharging:
  "get_battery_status info \<noteq> NOTCHARGING
   \<and> get_battery_status info \<in> {MISSING, UNKNOWN, CHARGED, CHARGING, DISCHARGING}"
  by (simp add: get_battery_status_def Let_def battery_state_defs)

section \<open>Properties of the option normalisation\<close>

lemma get_options_levels:
  assumes "\<not> display_version c" "\<not> list_icon_types c"
  shows "low_level (snd (get_options c s a b g)) =
           (let l = (if low_level c < 0 \<or> low_level c > 100 then 20 else low_level c);
                r = (if critical_level c < 0 \<or> critical_level c > 100 then 5
                     else critical_level c)
            in if r > l then 20 else l)"
    and "critical_level (snd (get_options c s a b g)) =
           (let l = (if low_level c < 0 \<or> low_level c > 100 then 20 else low_level c);
                r = (if critical_level c < 0 \<or> critical_level c > 100 then 5
                     else critical_level c)
            in if r > l then 5 else r)"
    and "fst (get_options c s a b g) = 1"
  using assms
  by (simp_all add: get_options_def Let_def DEFAULT_LOW_LEVEL_def DEFAULT_CRITICAL_LEVEL_def
      split: option.split)

text \<open>
  Claim C8. When \<^verbatim>\<open>get_options\<close> reaches the normalisation (neither the version nor
  the list of icon types was asked for), it returns 1 (it goes on, nothing is fatal), the
  critical level it leaves is at most the low level, and for in-range levels given
  inverted (critical above low, as low 5 and critical 20) both are reset to the defaults:
  low 20, critical 5.
\<close>

theorem inverted_levels_reset:
  assumes "\<not> display_version c" and "\<not> list_icon_types c"
    and "get_options c s a b g = (r, c')"
  shows "r = 1 \<and> critical_level c' \<le> low_level c'
    \<and> (0 \<le> low_level c \<and> low_level c \<le> 100 \<and> 0 \<le> critical_level c
        \<and> critical_level c \<le> 100 \<and> critical_level c > low_level c
        \<longrightarrow> low_level c' = 20 \<and> critical_level c' = 5)"
proof -
  have c': "c' = snd (get_options c s a b g)" and r: "r = fst (get_options c s a b g)"
    using assms(3) by simp_all
  show ?thesis
    unfolding c' r using assms(1,2)
    by (simp add: get_options_levels Let_def)
qed

theorem inverted_levels_reset_witness:
  "\<not> display_version inverted_configuration \<and> \<not> list_icon_types inverted_configuration
   \<and> low_level inverted_configuration = 5 \<and> critical_level inverted_configuration = 20
   \<and> fst (get_options inverted_configuration None True False False) = 1
   \<and> low_level (snd (get_options inverted_configuration None True False False)) = 20
   \<and> critical_level (snd (get_options inverted_configuration None True False False)) = 5"
  using inverted_levels_reset [of inverted_configuration None True False False
      "fst (get_options inverted_configuration None True False False)"
      "snd (get_options inverted_configuration None True False False)"]
  by (simp add: inverted_configuration_def)

section \<open>Properties of the time string\<close>

text \<open>
  Claim C9. \<^verbatim>\<open>get_time_string\<close> returns \<^verbatim>\<open>NULL\<close> exactly for the negative minutes
  (the sentinel -1 among them), so no time phrase is rendered for an absent value. For
  minutes from 0 it returns a phrase: below one hour the minutes and "remaining", from
  one hour on the hours, the minutes of the last hour and "remaining".
\<close>

theorem time_string_absent_or_phrase:
  "(get_time_string m = None \<longleftrightarrow> m < 0)
   \<and> (0 \<le> m \<and> m < 60 \<longrightarrow> get_time_string m =
         Some (dec_int m @ (if m = 1 then '' minute remaining'' else '' minutes remaining'')))
   \<and> (60 \<le> m \<longrightarrow> get_time_string m =
         Some (dec_int (m div 60) @ (if m div 60 = 1 then '' hour, '' else '' hours, '')
               @ dec_int (m mod 60) @ (if m mod 60 = 1 then '' minute'' else '' minutes'')
               @ '' remaining''))"
  by (auto simp: get_time_string_def g_dngettext_def Let_def)

theorem time_string_absent_or_phrase_witness:
  "get_time_string (- 1) = None
   \<and> get_time_string 1 = Some ''1 minute remaining''
   \<and> get_time_string 125 = Some ''2 hours, 5 minutes remaining''"
proof -
  have d: "dec_int 1 = ''1''" "dec_int 2 = ''2''" "dec_int 5 = ''5''"
    by code_simp+
  show ?thesis
    using time_string_absent_or_phrase [of "- 1"] time_string_absent_or_phrase [of 1]
      time_string_absent_or_phrase [of 125]
    by (simp add: d)
qed

section \<open>Properties of double precision rounding\<close>

text \<open>
  An integer of fewer than 54 bits is a double: rounding leaves it as it is. So the
  differences of percentages that the estimator takes are exact.
\<close>

lemma bitlen_bounds:
  "0 < n \<Longrightarrow> 0 < bitlen n \<and> 2 ^ nat (bitlen n - 1) \<le> n \<and> n < 2 ^ nat (bitlen n)"
proof (induction n rule: bitlen.induct)
  case (1 n)
  show ?case
  proof (cases "n div 2 = 0")
    case True
    with \<open>0 < n\<close> have n: "n = 1" by presburger
    have "bitlen 1 = 1" by (simp add: bitlen.simps [of 1] bitlen.simps [of 0])
    with n show ?thesis by simp
  next
    case False
    with \<open>0 < n\<close> have m: "0 < n div 2" by presburger
    from "1.IH" [OF _ m] \<open>0 < n\<close>
    have ih: "0 < bitlen (n div 2)" "2 ^ nat (bitlen (n div 2) - 1) \<le> n div 2"
      "n div 2 < 2 ^ nat (bitlen (n div 2))" by simp_all
    have b: "bitlen n = 1 + bitlen (n div 2)"
      using \<open>0 < n\<close> by (simp add: bitlen.simps [of n])
    have s: "nat (bitlen (n div 2)) = Suc (nat (bitlen (n div 2) - 1))"
      using ih(1) by simp
    have lo: "(2::int) ^ nat (bitlen (n div 2)) \<le> n"
    proof -
      have "(2::int) ^ nat (bitlen (n div 2)) = 2 * 2 ^ nat (bitlen (n div 2) - 1)"
        by (subst s) simp
      also have "\<dots> \<le> 2 * (n div 2)" using ih(2) by simp
      also have "\<dots> \<le> n" by presburger
      finally show ?thesis .
    qed
    have hi: "n < 2 * 2 ^ nat (bitlen (n div 2))"
    proof -
      have "n < 2 * (n div 2 + 1)" by presburger
      also have "\<dots> \<le> 2 * 2 ^ nat (bitlen (n div 2))" using ih(3) by simp
      finally show ?thesis .
    qed
    have n1: "nat (bitlen n) = Suc (nat (bitlen (n div 2)))"
      using ih(1) b by simp
    show ?thesis
      using ih(1) lo hi by (simp add: n1) (simp add: b)
  qed
qed

lemma ilog2_of_int:
  assumes "0 < i"
  shows "ilog2 (of_int i) = bitlen i - 1"
proof -
  have b1: "bitlen 1 = 1" by (simp add: bitlen.simps [of 1] bitlen.simps [of 0])
  have q: "quotient_of (of_int i) = (i, 1)" by simp
  from bitlen_bounds [OF assms]
  have bb: "0 < bitlen i" "2 ^ nat (bitlen i - 1) \<le> i" by simp_all
  have "(2::rat) powi (bitlen i - 1) = of_int (2 ^ nat (bitlen i - 1))"
    using bb(1) by (simp add: power_int_def)
  also have "\<dots> \<le> of_int i" using bb(2) by (simp only: of_int_le_iff)
  finally show ?thesis
    by (simp add: ilog2_def q b1)
qed

lemma round_half_even_of_int: "round_half_even (of_int z) = z"
  by (simp add: round_half_even_def)

lemma round_double_int:
  assumes "\<bar>i\<bar> < 2 ^ 53"
  shows "round_double (of_int i) = Finite (of_int i)"
proof (cases "i = 0")
  case True
  then show ?thesis by (simp add: round_double_def)
next
  case False
  define j where "j = \<bar>i\<bar>"
  have j: "0 < j" "j < 2 ^ 53" using False assms by (simp_all add: j_def)
  define e where "e = bitlen j - 1"
  from bitlen_bounds [OF j(1)]
  have bb: "0 \<le> e" "2 ^ nat e \<le> j" by (simp_all add: e_def)
  have h: "(2::int) ^ nat e < 2 ^ 53" using bb(2) j(2) by linarith
  have "nat e < 53"
    by (rule power_less_imp_less_exp [where a = "2::int"]) (use h in simp_all)
  then have e52: "e \<le> 52" by simp
  define k where "k = nat (52 - e)"
  have ulp: "(2::rat) powi (e - 52) = 1 / 2 ^ k"
    using e52 by (simp add: power_int_def k_def field_simps)
  have quot: "(of_int j :: rat) / (1 / 2 ^ k) = of_int (j * 2 ^ k)" by simp
  have mul: "(of_int (j * 2 ^ k) :: rat) * (1 / 2 ^ k) = of_int j" by simp
  have ab: "\<bar>of_int i :: rat\<bar> = of_int j" by (simp add: j_def)
  have il: "ilog2 (of_int j) = e"
    using ilog2_of_int [OF j(1)] by (simp add: e_def)
  have mx: "max e (- 1022) = e" using bb(1) by simp
  have nz: "(of_int i :: rat) \<noteq> 0" using False by simp
  have ov: "\<not> (1023 < e \<or> (e = 1023 \<and> 9007199254740992 \<le> j * 2 ^ k))"
    using e52 by simp
  have sg: "(if (0::rat) < of_int i then (of_int j :: rat) else - of_int j) = of_int i"
    by (simp add: j_def)
  show ?thesis
    unfolding round_double_def Let_def ab il mx ulp quot round_half_even_of_int mul
    using nz ov sg by (simp only: if_False) 
qed

lemma double_eq_gint [simp]: "double_eq (double_of_gint a) (double_of_gint b) \<longleftrightarrow> a = b"
  by (simp add: double_of_gint_def)

lemma double_sub_gint:
  assumes "\<bar>a\<bar> \<le> 2 ^ 31" and "\<bar>b\<bar> \<le> 2 ^ 31"
  shows "double_sub (double_of_gint a) (double_of_gint b) = double_of_gint (a - b)"
proof -
  have "\<bar>a - b\<bar> < 2 ^ 53" using assms by simp
  from round_double_int [OF this] show ?thesis
    by (simp add: double_of_gint_def)
qed

lemma round_double_0 [simp]: "round_double 0 = Finite 0"
  by (simp add: round_double_def)

lemma elapsed_0: "g_timer_elapsed t t = Finite 0"
  by (simp add: g_timer_elapsed_def)

lemma elapsed_60: "g_timer_elapsed t (t + 60000000) = Finite 60"
proof -
  have a: "round_double (of_int 60000000) = Finite (of_int 60000000)"
    by (rule round_double_int) simp
  have b: "round_double (of_int 60) = Finite (of_int 60)"
    by (rule round_double_int) simp
  show ?thesis
    using a b by (simp add: g_timer_elapsed_def)
qed

lemma changed_capacity:
  assumes "\<not> double_eq (estimation_remaining_capacity e) (double_of_gint (- 1))"
    and "\<not> double_eq rc (estimation_remaining_capacity e)"
    and "gint_of_double
           (double_div
              (double_div (double_sub y rc)
                 (double_div (double_sub rc (estimation_remaining_capacity e))
                    (g_timer_elapsed (estimation_timer e) now)))
              (Finite 60)) = Some t"
  shows "get_battery_time_estimation rc y now e =
    Some (t, e\<lparr>estimation_remaining_capacity := rc, estimation_time := t,
               estimation_timer := now\<rparr>)"
  using assms by (simp add: get_battery_time_estimation_def Let_def)

section \<open>Properties of the time estimation\<close>

text \<open>The three divisions of the example of claim C1, each rounded to a double.\<close>

lemma rate_sixth: "double_div (Finite (- 10)) (Finite 60)
    = Finite (- (6004799503160661 / 36028797018963968))"
  by code_simp

lemma seconds_420: "double_div (Finite (- 70)) (Finite (- (6004799503160661 / 36028797018963968)))
    = Finite 420"
  by code_simp

lemma minutes_7: "double_div (Finite 420) (Finite 60) = Finite 7"
  by code_simp

text \<open>
  Claim C1, as stated: after a reset, a first call with 80 seeds the variables, and a
  second call with 70 and target 0, made when the timer has run for 60 seconds, stores
  and returns 420. That is false: 420 is the number of seconds (line 511), which line 513
  divides by 60. Here the reset is at clock reading 0 and the first call two seconds
  later; the second call, at 60 seconds, returns 7.
\<close>

theorem estimate_420_counterexample:
  "get_battery_time_estimation (double_of_gint 80) (double_of_gint 0) 2000000
       (reset_battery_time_estimation 0 initial_estimation)
     = Some (- 1, seeded_estimation)
   \<and> map_option fst
       (get_battery_time_estimation (double_of_gint 70) (double_of_gint 0) 60000000
          seeded_estimation)
     = Some 7
   \<and> map_option fst
       (get_battery_time_estimation (double_of_gint 70) (double_of_gint 0) 60000000
          seeded_estimation)
     \<noteq> Some 420"
  by code_simp

text \<open>
  Claim C1, amended. After a reset at clock reading \<open>t0\<close>, a first call with percentage
  80 returns -1 and only stores 80 as the remembered capacity (the timer keeps running
  from the reset); a second call with percentage 70 and target 0 at \<open>t0\<close> plus 60
  seconds computes the rate (70 - 80) / 60 per second and (0 - 70) / rate = 420 seconds,
  and stores and returns 420 / 60 = 7 minutes, remembers 70 and restarts the timer.
\<close>

theorem seed_80_then_70_after_60s:
  "get_battery_time_estimation (double_of_gint 80) (double_of_gint 0) now1
      (reset_battery_time_estimation t0 e0)
     = Some (- 1, (reset_battery_time_estimation t0 e0)
                    \<lparr>estimation_remaining_capacity := double_of_gint 80\<rparr>)
   \<and> get_battery_time_estimation (double_of_gint 70) (double_of_gint 0) (t0 + 60000000)
        ((reset_battery_time_estimation t0 e0)
           \<lparr>estimation_remaining_capacity := double_of_gint 80\<rparr>)
     = Some (7, (reset_battery_time_estimation t0 e0)
                  \<lparr>estimation_remaining_capacity := double_of_gint 70,
                   estimation_time := 7, estimation_timer := t0 + 60000000\<rparr>)"
proof -
  define e1 where "e1 = (reset_battery_time_estimation t0 e0)
           \<lparr>estimation_remaining_capacity := double_of_gint 80\<rparr>"
  have e1: "estimation_remaining_capacity e1 = double_of_gint 80" "estimation_timer e1 = t0"
    by (simp_all add: e1_def reset_battery_time_estimation_def)
  have a: "double_sub (double_of_gint 70) (double_of_gint 80) = Finite (- 10)"
    using double_sub_gint [of 70 80] by (simp add: double_of_gint_def)
  have b: "double_sub (double_of_gint 0) (double_of_gint 70) = Finite (- 70)"
    using double_sub_gint [of 0 70] by (simp add: double_of_gint_def)
  have c: "gint_of_double (Finite 7) = Some 7"
    by (simp add: gint_of_double_def)
  have s: "get_battery_time_estimation (double_of_gint 80) (double_of_gint 0) now1
      (reset_battery_time_estimation t0 e0) = Some (- 1, e1)"
    by (simp add: get_battery_time_estimation_def reset_battery_time_estimation_def e1_def)
  have t: "get_battery_time_estimation (double_of_gint 70) (double_of_gint 0) (t0 + 60000000) e1
     = Some (7, e1\<lparr>estimation_remaining_capacity := double_of_gint 70,
                   estimation_time := 7, estimation_timer := t0 + 60000000\<rparr>)"
  proof (rule changed_capacity)
    show "\<not> double_eq (estimation_remaining_capacity e1) (double_of_gint (- 1))"
      by (simp add: e1)
    show "\<not> double_eq (double_of_gint 70) (estimation_remaining_capacity e1)"
      by (simp add: e1)
    show "gint_of_double
           (double_div
              (double_div (double_sub (double_of_gint 0) (double_of_gint 70))
                 (double_div (double_sub (double_of_gint 70) (estimation_remaining_capacity e1))
                    (g_timer_elapsed (estimation_timer e1) (t0 + 60000000))))
              (Finite 60)) = Some 7"
      by (simp only: e1 a b elapsed_60 rate_sixth seconds_420 minutes_7 c)
  qed
  from s t show ?thesis by (simp add: e1_def)
qed

text \<open>
  Claim C2, as stated: when the percentage differs from the remembered capacity and no
  time has elapsed, the estimator guards the division and yields "no estimate" (the
  sentinel -1, or the estimate it held). That is false: there is no guard. With 80
  remembered, no estimate yet, and a call with 70 at the very reading at which the timer
  was started, the call returns 0, which \<^verbatim>\<open>get_time_string\<close> renders.
\<close>

theorem zero_elapsed_counterexample:
  "map_option fst
     (get_battery_time_estimation (double_of_gint 70) (double_of_gint 0) 0 seeded_estimation)
   = Some 0
   \<and> map_option fst
     (get_battery_time_estimation (double_of_gint 70) (double_of_gint 0) 0 seeded_estimation)
   \<noteq> Some (estimation_time seeded_estimation)
   \<and> get_time_string 0 = Some ''0 minutes remaining''"
  by code_simp

text \<open>
  Claim C2, amended. When the remembered capacity is set (not -1), the percentage differs
  from it and the elapsed time of the timer is zero, the division by zero is carried out
  in double arithmetic, where it gives an infinite rate and no trap: the call returns
  normally, and it stores and returns an estimate of 0 minutes, remembers the new
  percentage and restarts the timer. (Percentages and target are \<^verbatim>\<open>gint\<close> values
  converted to \<^verbatim>\<open>gdouble\<close>, as \<^verbatim>\<open>get_battery_charge\<close> passes them.)
\<close>

theorem zero_elapsed_gives_zero_minutes:
  assumes "estimation_remaining_capacity e = double_of_gint c" and "c \<noteq> - 1" and "p \<noteq> c"
    and "\<bar>p\<bar> \<le> 2 ^ 31" and "\<bar>c\<bar> \<le> 2 ^ 31" and "\<bar>t\<bar> \<le> 2 ^ 31"
    and "now = estimation_timer e"
  shows "get_battery_time_estimation (double_of_gint p) (double_of_gint t) now e =
    Some (0, e\<lparr>estimation_remaining_capacity := double_of_gint p, estimation_time := 0,
               estimation_timer := now\<rparr>)"
proof (rule changed_capacity)
  show "\<not> double_eq (estimation_remaining_capacity e) (double_of_gint (- 1))"
    using assms(1,2) by simp
  show "\<not> double_eq (double_of_gint p) (estimation_remaining_capacity e)"
    using assms(1,3) by simp
  have num: "double_sub (double_of_gint p) (estimation_remaining_capacity e)
      = Finite (of_int (p - c))"
    using double_sub_gint [OF assms(4,5)] assms(1) by (simp add: double_of_gint_def)
  have nz: "(of_int (p - c) :: rat) \<noteq> 0" using assms(3) by simp
  have rate: "double_div (Finite (of_int (p - c))) (Finite 0) = PInf
      \<or> double_div (Finite (of_int (p - c))) (Finite 0) = NInf"
    using nz by simp
  have tgt: "double_sub (double_of_gint t) (double_of_gint p) = Finite (of_int (t - p))"
    using double_sub_gint [OF assms(6,4)] by (simp add: double_of_gint_def)
  have secs: "double_div (Finite (of_int (t - p)))
      (double_div (Finite (of_int (p - c))) (Finite 0)) = Finite 0"
    using rate by (elim disjE) (simp_all only: double_div.simps)
  have mins: "gint_of_double (double_div (Finite 0) (Finite 60)) = Some 0"
    by (simp add: gint_of_double_def)
  show "gint_of_double
           (double_div
              (double_div (double_sub (double_of_gint t) (double_of_gint p))
                 (double_div (double_sub (double_of_gint p) (estimation_remaining_capacity e))
                    (g_timer_elapsed (estimation_timer e) now)))
              (Finite 60)) = Some 0"
    by (simp only: num tgt assms(7) elapsed_0 secs mins)
qed

theorem zero_elapsed_gives_zero_minutes_witness:
  "get_battery_time_estimation (double_of_gint 70) (double_of_gint 0) 0 seeded_estimation =
    Some (0, \<lparr>estimation_remaining_capacity = double_of_gint 70, estimation_time = 0,
               estimation_timer = 0\<rparr>)"
  using zero_elapsed_gives_zero_minutes [of seeded_estimation 80 70 0 0]
  by (simp add: seeded_estimation_def)

text \<open>
  Claim C3. A call whose percentage equals the remembered capacity returns the stored
  estimate and leaves the three variables as they were. In particular, after a reset, a
  first call with 80 returns -1 and only stores 80 as the remembered capacity, and a
  second call with 80 returns -1 again and changes nothing.
\<close>

theorem unchanged_percentage_holds_estimate:
  "(double_eq rc (estimation_remaining_capacity e)
      \<longrightarrow> get_battery_time_estimation rc y now e = Some (estimation_time e, e))
   \<and> get_battery_time_estimation (double_of_gint 80) y1 now1
        (reset_battery_time_estimation t0 e0)
       = Some (- 1, (reset_battery_time_estimation t0 e0)
                      \<lparr>estimation_remaining_capacity := double_of_gint 80\<rparr>)
   \<and> get_battery_time_estimation (double_of_gint 80) y2 now2
        ((reset_battery_time_estimation t0 e0)
           \<lparr>estimation_remaining_capacity := double_of_gint 80\<rparr>)
       = Some (- 1, (reset_battery_time_estimation t0 e0)
                      \<lparr>estimation_remaining_capacity := double_of_gint 80\<rparr>)"
proof -
  have g: "get_battery_time_estimation rc y now e = Some (estimation_time e, e)"
    if "double_eq rc (estimation_remaining_capacity e)" for rc y now and e :: estimation
    using that
    by (cases rc; cases "estimation_remaining_capacity e")
       (auto simp: get_battery_time_estimation_def Let_def double_of_gint_def)
  have s: "get_battery_time_estimation (double_of_gint 80) y1 now1
        (reset_battery_time_estimation t0 e0)
       = Some (- 1, (reset_battery_time_estimation t0 e0)
                      \<lparr>estimation_remaining_capacity := double_of_gint 80\<rparr>)"
    by (simp add: get_battery_time_estimation_def reset_battery_time_estimation_def)
  have u: "get_battery_time_estimation (double_of_gint 80) y2 now2
        ((reset_battery_time_estimation t0 e0)
           \<lparr>estimation_remaining_capacity := double_of_gint 80\<rparr>)
       = Some (- 1, (reset_battery_time_estimation t0 e0)
                      \<lparr>estimation_remaining_capacity := double_of_gint 80\<rparr>)"
    using g [of "double_of_gint 80" "(reset_battery_time_estimation t0 e0)
           \<lparr>estimation_remaining_capacity := double_of_gint 80\<rparr>" y2 now2]
    by (simp add: reset_battery_time_estimation_def)
  from g s u show ?thesis by blast
qed

theorem unchanged_percentage_holds_estimate_witness:
  "double_eq (double_of_gint 55)
     (estimation_remaining_capacity
        \<lparr>estimation_remaining_capacity = double_of_gint 55, estimation_time = 42,
         estimation_timer = 3\<rparr>)
   \<and> get_battery_time_estimation (double_of_gint 55) (double_of_gint 100) 5000000
        \<lparr>estimation_remaining_capacity = double_of_gint 55, estimation_time = 42,
         estimation_timer = 3\<rparr>
      = Some (42, \<lparr>estimation_remaining_capacity = double_of_gint 55, estimation_time = 42,
         estimation_timer = 3\<rparr>)"
  using unchanged_percentage_holds_estimate [of "double_of_gint 55"
      "\<lparr>estimation_remaining_capacity = double_of_gint 55, estimation_time = 42,
         estimation_timer = 3\<rparr>" "double_of_gint 100" 5000000]
  by simp

section \<open>Properties of the threshold tracking\<close>

lemma count_calls_simps [simp]:
  "count_calls P [] = 0"
  "count_calls P (c # cs) = (if P c then Suc (count_calls P cs) else count_calls P cs)"
  "count_calls P (cs @ ds) = count_calls P cs + count_calls P ds"
  by (simp_all add: count_calls_def)

lemma discharging_levels_low:
  assumes "status = DISCHARGING \<or> status = NOTCHARGING"
    and "discharging_levels conf status percentage time s = (s', calls)"
  shows "old_battery_status s' = DISCHARGING"
    and "count_calls low_notification calls + low_budget s' \<le> low_budget s"
    and "count_calls low_command_request calls = 0"
    and "between_polls s \<Longrightarrow>
           spawn_command_low s' = (count_calls low_notification calls = 1)"
    and "between_polls s \<Longrightarrow>
           spawn_command_critical s' = (count_calls critical_notification calls = 1)"
    and "estimation s' = estimation s"
  using assms
  by (auto simp: discharging_levels_def Let_def low_budget_def between_polls_def
      battery_state_defs split: if_splits)

lemma spawn_critical_keeps:
  assumes "spawn_critical conf spawn info s = (s', calls)"
  shows "old_battery_status s' = old_battery_status s"
    and "battery_low s' = battery_low s"
    and "battery_critical s' = battery_critical s"
    and "spawn_command_low s' = spawn_command_low s"
    and "spawn_command_critical s' = False"
    and "count_calls low_notification calls = 0"
    and "count_calls critical_notification calls = 0"
    and "count_calls low_command_request calls = 0"
    and "estimation s' = estimation s"
  using assms
  by (auto simp: spawn_critical_def Let_def split: if_splits option.splits)

lemma spawn_commands_keeps:
  assumes "get_battery_status info = DISCHARGING \<or> get_battery_status info = NOTCHARGING"
    and "spawn_commands conf spawn info s = (s', calls)"
  shows "old_battery_status s' = old_battery_status s"
    and "battery_low s' = battery_low s"
    and "battery_critical s' = battery_critical s"
    and "between_polls s'"
    and "count_calls low_notification calls = 0"
    and "count_calls critical_notification calls = 0"
    and "count_calls low_command_request calls \<le> (if spawn_command_low s then 1 else 0)"
    and "estimation s' = estimation s"
proof -
  obtain s2 calls2 where c: "spawn_critical conf spawn info (s\<lparr>spawn_command_low := False\<rparr>)
      = (s2, calls2)" by fastforce
  obtain s3 calls3 where d: "spawn_critical conf spawn info s = (s3, calls3)" by fastforce
  note k = spawn_critical_keeps [OF c] spawn_critical_keeps [OF d]
  show "old_battery_status s' = old_battery_status s"
    and "battery_low s' = battery_low s"
    and "battery_critical s' = battery_critical s"
    and "between_polls s'"
    and "count_calls low_notification calls = 0"
    and "count_calls critical_notification calls = 0"
    and "count_calls low_command_request calls \<le> (if spawn_command_low s then 1 else 0)"
    and "estimation s' = estimation s"
    using assms k
    by (auto simp: spawn_commands_def Let_def c d between_polls_def
        split: if_splits option.splits)
qed

lemma discharging_poll:
  assumes "get_battery_status info = DISCHARGING \<or> get_battery_status info = NOTCHARGING"
  shows "\<exists>s1 calls1 s' calls2.
      discharging_levels conf (get_battery_status info) (battery_percentage info)
        (if using_minutes info \<noteq> 0 then battery_time info
         else c_div (battery_time info + 30) 60) s = (s1, calls1)
    \<and> spawn_commands conf spawn info s1 = (s', calls2)
    \<and> update_tray_icon_status conf spawn info now s = Some (s', calls1 @ calls2)"
proof -
  obtain s1 calls1 where a: "discharging_levels conf (get_battery_status info)
        (battery_percentage info)
        (if using_minutes info \<noteq> 0 then battery_time info
         else c_div (battery_time info + 30) 60) s = (s1, calls1)"
    by fastforce
  obtain s' calls2 where b: "spawn_commands conf spawn info s1 = (s', calls2)"
    by fastforce
  have "update_tray_icon_status conf spawn info now s = Some (s', calls1 @ calls2)"
    using assms a b
    by (auto simp: update_tray_icon_status_def get_battery_charge_def Let_def
        battery_state_defs)
  with a b show ?thesis by blast
qed

lemma discharging_poll_low:
  assumes "get_battery_status info = DISCHARGING \<or> get_battery_status info = NOTCHARGING"
    and "between_polls s"
  shows "\<exists>s' calls. update_tray_icon_status conf spawn info now s = Some (s', calls)
    \<and> between_polls s'
    \<and> count_calls low_notification calls + low_budget s' \<le> low_budget s
    \<and> count_calls low_command_request calls \<le> count_calls low_notification calls"
proof -
  from discharging_poll [OF assms(1), of conf s spawn now]
  obtain s1 calls1 s' calls2 where
    a: "discharging_levels conf (get_battery_status info) (battery_percentage info)
        (if using_minutes info \<noteq> 0 then battery_time info
         else c_div (battery_time info + 30) 60) s = (s1, calls1)"
    and b: "spawn_commands conf spawn info s1 = (s', calls2)"
    and c: "update_tray_icon_status conf spawn info now s = Some (s', calls1 @ calls2)"
    by blast
  note l = discharging_levels_low [OF assms(1) a]
  note k = spawn_commands_keeps [OF assms(1) b]
  have budget: "low_budget s' = low_budget s1"
    by (simp add: low_budget_def k(1,2))
  have n: "count_calls low_notification (calls1 @ calls2) + low_budget s' \<le> low_budget s"
    using l(2) k(5) budget by simp
  have r: "count_calls low_command_request (calls1 @ calls2)
      \<le> count_calls low_notification (calls1 @ calls2)"
    using l(3) l(4) [OF assms(2)] k(5,7) by (simp split: if_splits)
  from c k(4) n r show ?thesis by blast
qed

lemma session_low:
  assumes "\<forall>info \<in> set (map fst samples).
      get_battery_status info = DISCHARGING \<or> get_battery_status info = NOTCHARGING"
    and "between_polls s"
  shows "\<exists>s' calls. polls conf spawn samples s = Some (s', calls)
    \<and> between_polls s'
    \<and> count_calls low_notification calls + low_budget s' \<le> low_budget s
    \<and> count_calls low_command_request calls \<le> count_calls low_notification calls"
  using assms
proof (induction samples arbitrary: s)
  case Nil
  then show ?case by simp
next
  case (Cons p rest)
  obtain info now where p: "p = (info, now)" by (cases p)
  have d: "get_battery_status info = DISCHARGING \<or> get_battery_status info = NOTCHARGING"
    using Cons.prems(1) p by simp
  from discharging_poll_low [OF d Cons.prems(2), of conf spawn now]
  obtain s1 calls1 where
    u: "update_tray_icon_status conf spawn info now s = Some (s1, calls1)"
    and b1: "between_polls s1"
    and n1: "count_calls low_notification calls1 + low_budget s1 \<le> low_budget s"
    and r1: "count_calls low_command_request calls1 \<le> count_calls low_notification calls1"
    by blast
  have rest: "\<forall>info \<in> set (map fst rest).
      get_battery_status info = DISCHARGING \<or> get_battery_status info = NOTCHARGING"
    using Cons.prems(1) by simp
  from Cons.IH [OF rest b1]
  obtain s2 calls2 where
    v: "polls conf spawn rest s1 = Some (s2, calls2)"
    and b2: "between_polls s2"
    and n2: "count_calls low_notification calls2 + low_budget s2 \<le> low_budget s1"
    and r2: "count_calls low_command_request calls2 \<le> count_calls low_notification calls2"
    by blast
  have "polls conf spawn (p # rest) s = Some (s2, calls1 @ calls2)"
    by (simp add: p u v)
  moreover have "count_calls low_notification (calls1 @ calls2) + low_budget s2 \<le> low_budget s"
    using n1 n2 by simp
  moreover have "count_calls low_command_request (calls1 @ calls2)
      \<le> count_calls low_notification (calls1 @ calls2)"
    using r1 r2 by simp
  ultimately show ?case using b2 by blast
qed

lemma get_battery_status_cases:
  "get_battery_status info \<in> {MISSING, UNKNOWN, CHARGED, CHARGING, DISCHARGING}"
  by (simp add: get_battery_status_def Let_def)

lemma HANDLE_BATTERY_STATUS_keeps:
  assumes "HANDLE_BATTERY_STATUS status PCT TIM EXP URG s = (s', calls)"
  shows "old_battery_status s' = status
    \<and> spawn_command_low s' = spawn_command_low s
    \<and> spawn_command_critical s' = spawn_command_critical s"
  using assms
  by (auto simp: HANDLE_BATTERY_STATUS_def Let_def split: if_splits)

lemma other_poll:
  assumes "get_battery_status info \<noteq> DISCHARGING"
    and "update_tray_icon_status conf spawn info now s = Some (s', calls)"
  shows "old_battery_status s' = get_battery_status info"
    and "between_polls s' = between_polls s"
proof -
  have c: "get_battery_status info \<in> {MISSING, UNKNOWN, CHARGED, CHARGING}"
    using get_battery_status_cases [of info] assms(1) by auto
  have "old_battery_status s' = get_battery_status info
    \<and> spawn_command_low s' = spawn_command_low s
    \<and> spawn_command_critical s' = spawn_command_critical s"
    using assms(2) c
    by (auto simp: update_tray_icon_status_def Let_def battery_state_defs
        split: if_splits option.splits dest!: HANDLE_BATTERY_STATUS_keeps)
  then show "old_battery_status s' = get_battery_status info"
    and "between_polls s' = between_polls s"
    by (simp_all add: between_polls_def)
qed

lemma between_polls_initial: "between_polls (initial_status now)"
  by (simp add: between_polls_def initial_status_def)

lemma between_polls_update:
  assumes "between_polls s"
    and "update_tray_icon_status conf spawn info now s = Some (s', calls)"
  shows "between_polls s'"
proof (cases "get_battery_status info = DISCHARGING")
  case True
  from discharging_poll_low [OF disjI1 [OF True] assms(1), of conf spawn now] assms(2)
  show ?thesis by auto
next
  case False
  from other_poll(2) [OF False assms(2)] assms(1) show ?thesis by simp
qed

text \<open>
  Claim C4. Take any run of consecutive polls that are all classified as Discharging or
  NotCharging (a discharging session, or a part of one), whatever the percentages of its
  samples, started in any status the program can be in between two polls. The run makes
  at most one low level notification and at most one request of the low level command.
\<close>

theorem low_crossing_at_most_once:
  assumes "\<forall>info \<in> set (map fst samples).
      get_battery_status info = DISCHARGING \<or> get_battery_status info = NOTCHARGING"
    and "between_polls s"
  shows "\<exists>s' calls. polls conf spawn samples s = Some (s', calls)
    \<and> count_calls low_notification calls \<le> 1
    \<and> count_calls low_command_request calls \<le> 1"
proof -
  from session_low [OF assms, of conf spawn]
  obtain s' calls where
    v: "polls conf spawn samples s = Some (s', calls)"
    and n: "count_calls low_notification calls + low_budget s' \<le> low_budget s"
    and r: "count_calls low_command_request calls \<le> count_calls low_notification calls"
    by blast
  have "low_budget s \<le> 1" by (simp add: low_budget_def)
  with n r have "count_calls low_notification calls \<le> 1"
    "count_calls low_command_request calls \<le> 1" by simp_all
  with v show ?thesis by blast
qed

theorem low_crossing_at_most_once_witness:
  "between_polls (initial_status 0)
   \<and> map (get_battery_status \<circ> fst) fluctuating_session
       = [DISCHARGING, DISCHARGING, DISCHARGING, DISCHARGING, DISCHARGING]
   \<and> map (battery_percentage \<circ> fst) fluctuating_session = [25, 20, 21, 19, 18]
   \<and> (\<exists>s' calls. polls sample_configuration (\<lambda>cmd. True) fluctuating_session
          (initial_status 0) = Some (s', calls)
        \<and> count_calls low_notification calls \<le> 1
        \<and> count_calls low_command_request calls \<le> 1)
   \<and> map_option (\<lambda>(s', calls). (battery_low s', count_calls low_notification calls,
         count_calls low_command_request calls))
       (polls sample_configuration (\<lambda>cmd. True) fluctuating_session (initial_status 0))
       = Some (True, 1, 1)"
proof -
  have b: "between_polls (initial_status 0)"
    by (simp add: between_polls_def initial_status_def)
  have m: "map (get_battery_status \<circ> fst) fluctuating_session
       = [DISCHARGING, DISCHARGING, DISCHARGING, DISCHARGING, DISCHARGING]"
    by (simp add: fluctuating_session_def apm_sample_def get_battery_status_def)
  have p: "map (battery_percentage \<circ> fst) fluctuating_session = [25, 20, 21, 19, 18]"
    by (simp add: fluctuating_session_def apm_sample_def)
  have a: "\<forall>info \<in> set (map fst fluctuating_session).
      get_battery_status info = DISCHARGING \<or> get_battery_status info = NOTCHARGING"
    by (simp add: fluctuating_session_def apm_sample_def get_battery_status_def)
  have e: "map_option (\<lambda>(s', calls). (battery_low s', count_calls low_notification calls,
         count_calls low_command_request calls))
       (polls sample_configuration (\<lambda>cmd. True) fluctuating_session (initial_status 0))
       = Some (True, 1, 1)"
    by code_simp
  from low_crossing_at_most_once [OF a b, of sample_configuration "\<lambda>cmd. True"] b m p e
  show ?thesis by blast
qed

text \<open>
  Claim C5. At the first poll of a discharging session (the status remembered from the
  poll before is not Discharging), if the percentage is at most the critical level and
  the critical level is below the low level, that one poll makes the low level and the
  critical level notification, and leaves both latches set.
\<close>

theorem both_crossings_in_first_poll:
  assumes "get_battery_status info = DISCHARGING \<or> get_battery_status info = NOTCHARGING"
    and "old_battery_status s \<noteq> DISCHARGING"
    and "battery_percentage info \<le> critical_level conf"
    and "critical_level conf < low_level conf"
  shows "\<exists>s' calls. update_tray_icon_status conf spawn info now s = Some (s', calls)
    \<and> battery_low s' \<and> battery_critical s'
    \<and> count_calls low_notification calls = 1
    \<and> count_calls critical_notification calls = 1"
proof -
  from discharging_poll [OF assms(1), of conf s spawn now]
  obtain s1 calls1 s' calls2 where
    a: "discharging_levels conf (get_battery_status info) (battery_percentage info)
        (if using_minutes info \<noteq> 0 then battery_time info
         else c_div (battery_time info + 30) 60) s = (s1, calls1)"
    and b: "spawn_commands conf spawn info s1 = (s', calls2)"
    and c: "update_tray_icon_status conf spawn info now s = Some (s', calls1 @ calls2)"
    by blast
  have lv: "battery_low s1 \<and> battery_critical s1
      \<and> count_calls low_notification calls1 = 1
      \<and> count_calls critical_notification calls1 = 1"
    using a assms
    by (auto simp: discharging_levels_def Let_def battery_state_defs)
  note k = spawn_commands_keeps [OF assms(1) b]
  from c lv k(2,3,5,6) show ?thesis by simp
qed

theorem both_crossings_in_first_poll_witness:
  "get_battery_status (apm_sample 2 3) = DISCHARGING
   \<and> old_battery_status (initial_status 0) \<noteq> DISCHARGING
   \<and> battery_percentage (apm_sample 2 3) \<le> critical_level sample_configuration
   \<and> critical_level sample_configuration < low_level sample_configuration
   \<and> (\<exists>s' calls. update_tray_icon_status sample_configuration (\<lambda>cmd. True) (apm_sample 2 3) 5000000
          (initial_status 0) = Some (s', calls)
        \<and> battery_low s' \<and> battery_critical s'
        \<and> count_calls low_notification calls = 1
        \<and> count_calls critical_notification calls = 1)"
proof -
  have a: "get_battery_status (apm_sample 2 3) = DISCHARGING"
    by (simp add: apm_sample_def get_battery_status_def)
  have b: "old_battery_status (initial_status 0) \<noteq> DISCHARGING"
    by (simp add: initial_status_def DISCHARGING_def)
  have c: "battery_percentage (apm_sample 2 3) \<le> critical_level sample_configuration"
    by (simp add: apm_sample_def sample_configuration_def)
  have d: "critical_level sample_configuration < low_level sample_configuration"
    by (simp add: sample_configuration_def)
  from both_crossings_in_first_poll [OF disjI1 [OF a] b c d, of "\<lambda>cmd. True" 5000000] a b c d
  show ?thesis by blast
qed

end
